theory Spec2Isabelle
  imports Complex_Main
begin

section \<open>The drive-by-wire node of \<^verbatim>\<open>dbw_node.py\<close>\<close>

text \<open>
  The node is one Python object (\<^verbatim>\<open>DBWNode\<close>) whose attributes are written by seven
  subscriber handlers and read by one loop. The model is explicit state passing over a
  record of the attributes. Python floats are modelled as \<open>real\<close>: the only arithmetic
  of the source is the subtraction \<^verbatim>\<open>now - self.last_timestamp\<close>, every other float is
  copied. What lies outside the source file is a parameter of the model: the parameter
  server, the clock readings, the messages that arrive, the \<^verbatim>\<open>Controller\<close>
  collaborator, and (in \<open>publish_via\<close>, \<open>tick_via\<close> and \<open>loop_via\<close>) the exceptions that
  the calls into rospy raise.
\<close>

subsection \<open>Messages\<close>

text \<open>
  \<^verbatim>\<open>geometry_msgs/Twist\<close>: the handlers read \<^verbatim>\<open>msg.twist.linear.x\<close> and
  \<^verbatim>\<open>msg.twist.angular.z\<close>; the other four components are carried and never read.
\<close>

record Twist =
  linear_x :: real
  linear_y :: real
  linear_z :: real
  angular_x :: real
  angular_y :: real
  angular_z :: real

record Pose =
  position :: "real \<times> real \<times> real"
  orientation :: "real \<times> real \<times> real \<times> real"

record Waypoint =
  wp_pose :: Pose
  wp_twist :: Twist

text \<open>
  One constructor per subscription of lines 88 to 94, carrying the part of the message
  its handler reads: \<^verbatim>\<open>msg.twist\<close>, \<^verbatim>\<open>msg.twist\<close>, \<^verbatim>\<open>msg.data\<close>,
  \<^verbatim>\<open>msg.waypoints\<close>, \<^verbatim>\<open>msg.pose\<close>, \<^verbatim>\<open>msg.steering_wheel_angle\<close>, \<^verbatim>\<open>msg.data\<close>.
\<close>

datatype inbound =
    TwistCmd Twist
  | CurrentVelocity Twist
  | DbwEnabledMsg bool
  | FinalWaypointsMsg "Waypoint list"
  | CurrentPoseMsg Pose
  | SteeringReportMsg real
  | CteMsg real

text \<open>
  The command-type tags of \<^verbatim>\<open>dbw_mkz_msgs\<close>. The outbound messages are modelled with
  the fields that \<^verbatim>\<open>publish\<close> assigns; a freshly constructed message has them zeroed.
\<close>

datatype pedal_cmd_type = CMD_NONE | CMD_PEDAL | CMD_PERCENT | CMD_TORQUE

record ThrottleCmd =
  t_enable :: bool
  t_pedal_cmd_type :: pedal_cmd_type
  t_pedal_cmd :: real

record SteeringCmd =
  s_enable :: bool
  steering_wheel_angle_cmd :: real

record BrakeCmd =
  b_enable :: bool
  b_pedal_cmd_type :: pedal_cmd_type
  b_pedal_cmd :: real

definition ThrottleCmd_new :: ThrottleCmd where
  "ThrottleCmd_new = \<lparr>t_enable = False, t_pedal_cmd_type = CMD_NONE, t_pedal_cmd = 0\<rparr>"

definition SteeringCmd_new :: SteeringCmd where
  "SteeringCmd_new = \<lparr>s_enable = False, steering_wheel_angle_cmd = 0\<rparr>"

definition BrakeCmd_new :: BrakeCmd where
  "BrakeCmd_new = \<lparr>b_enable = False, b_pedal_cmd_type = CMD_NONE, b_pedal_cmd = 0\<rparr>"

subsection \<open>Parameters (lines 42 to 72)\<close>

text \<open>
  \<^verbatim>\<open>rospy.get_param(name, default)\<close> over a parameter server, a dictionary from
  names to values.
\<close>

definition get_param :: "(string \<rightharpoonup> real) \<Rightarrow> string \<Rightarrow> real \<Rightarrow> real" where
  "get_param server name dflt = (case server name of None \<Rightarrow> dflt | Some v \<Rightarrow> v)"

text \<open>The eleven local variables of \<^verbatim>\<open>__init__\<close>.\<close>

record params =
  vehicle_mass :: real
  fuel_capacity :: real
  brake_deadband :: real
  decel_limit :: real
  accel_limit :: real
  wheel_radius :: real
  wheel_base :: real
  steer_ratio :: real
  max_lat_accel :: real
  max_steer_angle :: real
  min_speed :: real

definition read_params :: "(string \<rightharpoonup> real) \<Rightarrow> params" where
  "read_params server =
     \<lparr>vehicle_mass = get_param server ''~vehicle_mass'' 1736.35,
      fuel_capacity = get_param server ''~fuel_capacity'' 13.5,
      brake_deadband = get_param server ''~brake_deadband'' 0.1,
      decel_limit = get_param server ''~decel_limit'' (- 5),
      accel_limit = get_param server ''~accel_limit'' 1,
      wheel_radius = get_param server ''~wheel_radius'' 0.2413,
      wheel_base = get_param server ''~wheel_base'' 2.8498,
      steer_ratio = get_param server ''~steer_ratio'' 14.8,
      max_lat_accel = get_param server ''~max_lat_accel'' 3,
      max_steer_angle = get_param server ''~max_steer_angle'' 8,
      min_speed = get_param server ''~min_speed'' 1\<rparr>"

text \<open>
  The dictionary \<^verbatim>\<open>controller_args\<close> of lines 60 to 70, in the order of the literal.
\<close>

definition controller_args :: "params \<Rightarrow> (string \<times> real) list" where
  "controller_args p =
     [(''wheel_base'', wheel_base p),
      (''steer_ratio'', steer_ratio p),
      (''min_speed'', min_speed p),
      (''max_lat_accel'', max_lat_accel p),
      (''max_steer_angle'', max_steer_angle p),
      (''decel_limit'', decel_limit p),
      (''accel_limit'', accel_limit p),
      (''vehicle_mass'', vehicle_mass p),
      (''wheel_radius'', wheel_radius p),
      (''brake_deadband'', brake_deadband p)]"

subsection \<open>The node\<close>

text \<open>
  The keyword arguments of \<^verbatim>\<open>self.controller.control\<close> (the dictionary
  \<^verbatim>\<open>control_args\<close> of lines 108 to 116); the fields carry the prefix \<open>arg_\<close> because the
  attributes of the node have the same names.
\<close>

record control_args =
  arg_target_vel :: real
  arg_curr_vel :: real
  arg_target_ang_vel :: real
  arg_curr_ang_vel :: real
  arg_dbw_enabled :: bool
  arg_curr_angle :: real
  arg_cte :: real
  arg_elapsed :: real

text \<open>
  What the name \<^verbatim>\<open>final_waypoints_cb\<close> resolves to on the instance: the method of the
  class, until an assignment to \<^verbatim>\<open>self.final_waypoints_cb\<close> shadows it with a value.
\<close>

datatype cb_attr = Method | Shadowed "Waypoint list"

text \<open>
  \<^verbatim>\<open>rospy.Rate\<close>, as its documentation describes it: an object built from a frequency
  in hertz, whose \<^verbatim>\<open>sleep()\<close> sleeps for what is left of one period since the previous
  sleep, so that a loop calling it once per iteration runs at that frequency. When a
  sleep returns is decided by the clock and the scheduler and is not part of the model.
\<close>

datatype Rate = Rate real


text \<open>
  The attributes of \<^verbatim>\<open>self\<close>. A publisher is modelled by the sequence of messages
  published on it so far. \<open>'c\<close> is the state of the \<^verbatim>\<open>Controller\<close> object.
  Two fields are not attributes of the source, they record what the loop did, so that
  properties of it can be stated: \<open>control_calls\<close> has the arguments of every call of
  \<^verbatim>\<open>self.controller.control\<close>, and \<open>sleeps\<close> has, for every call of \<^verbatim>\<open>rate.sleep()\<close>
  that returned, the \<^verbatim>\<open>Rate\<close> object it was called on.
\<close>

record 'c DBWNode =
  steer_pub :: "SteeringCmd list"
  throttle_pub :: "ThrottleCmd list"
  brake_pub :: "BrakeCmd list"
  controller :: 'c
  dbw_enabled :: bool
  curr_vel :: real
  curr_ang_vel :: real
  target_vel :: real
  target_ang_vel :: real
  current_pose :: "Pose option"
  final_waypoints :: "Waypoint list option"
  last_timestamp :: real
  curr_angle :: real
  cte :: real
  count :: int
  final_waypoints_cb_attr :: cb_attr
  control_calls :: "control_args list"
  sleeps :: "Rate list"

text \<open>
  Lines 55 to 85 of \<^verbatim>\<open>__init__\<close>: \<open>mk\<close> is the constructor \<^verbatim>\<open>Controller(**controller_args)\<close>,
  \<open>t0\<close> the reading of \<^verbatim>\<open>rospy.rostime.get_time()\<close> at line 82.
\<close>

definition DBWNode_init ::
  "((string \<times> real) list \<Rightarrow> 'c) \<Rightarrow> (string \<rightharpoonup> real) \<Rightarrow> real \<Rightarrow> 'c DBWNode" where
  "DBWNode_init mk server t0 =
     \<lparr>steer_pub = [],
      throttle_pub = [],
      brake_pub = [],
      controller = mk (controller_args (read_params server)),
      dbw_enabled = True,
      curr_vel = 0,
      curr_ang_vel = 0,
      target_vel = 0,
      target_ang_vel = 0,
      current_pose = None,
      final_waypoints = None,
      last_timestamp = t0,
      curr_angle = 0,
      cte = 0,
      count = 0,
      final_waypoints_cb_attr = Method,
      control_calls = [],
      sleeps = []\<rparr>"

subsection \<open>The subscriber handlers (lines 151 to 172)\<close>

definition dbw_enabled_cb :: "'c DBWNode \<Rightarrow> bool \<Rightarrow> 'c DBWNode" where
  "dbw_enabled_cb self d = self\<lparr>dbw_enabled := d\<rparr>"

definition twist_cmd_cb :: "'c DBWNode \<Rightarrow> Twist \<Rightarrow> 'c DBWNode" where
  "twist_cmd_cb self tw = self\<lparr>target_vel := linear_x tw, target_ang_vel := angular_z tw\<rparr>"

definition current_velocity_cb :: "'c DBWNode \<Rightarrow> Twist \<Rightarrow> 'c DBWNode" where
  "current_velocity_cb self tw = self\<lparr>curr_vel := linear_x tw, curr_ang_vel := angular_z tw\<rparr>"

definition current_pose_cb :: "'c DBWNode \<Rightarrow> Pose \<Rightarrow> 'c DBWNode" where
  "current_pose_cb self p = self\<lparr>current_pose := Some p\<rparr>"

definition cte_cb :: "'c DBWNode \<Rightarrow> real \<Rightarrow> 'c DBWNode" where
  "cte_cb self d = self\<lparr>cte := d\<rparr>"

text \<open>Line 169 assigns to \<^verbatim>\<open>self.final_waypoints_cb\<close>, not to \<^verbatim>\<open>self.final_waypoints\<close>.\<close>

definition final_waypoints_cb :: "'c DBWNode \<Rightarrow> Waypoint list \<Rightarrow> 'c DBWNode" where
  "final_waypoints_cb self ws = self\<lparr>final_waypoints_cb_attr := Shadowed ws\<rparr>"

definition current_angle_cb :: "'c DBWNode \<Rightarrow> real \<Rightarrow> 'c DBWNode" where
  "current_angle_cb self a = self\<lparr>curr_angle := a\<rparr>"

text \<open>
  The subscriptions of lines 88 to 94. Each subscriber keeps the bound method it was
  given at line 91, so a message on \<^verbatim>\<open>/final_waypoints\<close> runs the method also after the
  instance attribute of the same name has been overwritten.
\<close>

fun dispatch :: "'c DBWNode \<Rightarrow> inbound \<Rightarrow> 'c DBWNode" where
  "dispatch self (TwistCmd tw) = twist_cmd_cb self tw"
| "dispatch self (CurrentVelocity tw) = current_velocity_cb self tw"
| "dispatch self (DbwEnabledMsg d) = dbw_enabled_cb self d"
| "dispatch self (FinalWaypointsMsg ws) = final_waypoints_cb self ws"
| "dispatch self (CurrentPoseMsg p) = current_pose_cb self p"
| "dispatch self (SteeringReportMsg a) = current_angle_cb self a"
| "dispatch self (CteMsg d) = cte_cb self d"

text \<open>Handlers run one after the other, in the order of arrival.\<close>

definition deliver :: "'c DBWNode \<Rightarrow> inbound list \<Rightarrow> 'c DBWNode" where
  "deliver self ms = foldl dispatch self ms"

subsection \<open>Publishing (lines 129 to 149)\<close>

definition publish :: "'c DBWNode \<Rightarrow> real \<Rightarrow> real \<Rightarrow> real \<Rightarrow> 'c DBWNode" where
  "publish self throttle brake steer =
     (let self = self\<lparr>count := count self + 1\<rparr>;
          tcmd = ThrottleCmd_new;
          tcmd = tcmd\<lparr>t_enable := True\<rparr>;
          tcmd = tcmd\<lparr>t_pedal_cmd_type := CMD_PERCENT\<rparr>;
          tcmd = tcmd\<lparr>t_pedal_cmd := throttle\<rparr>;
          self = self\<lparr>throttle_pub := throttle_pub self @ [tcmd]\<rparr>;
          scmd = SteeringCmd_new;
          scmd = scmd\<lparr>s_enable := True\<rparr>;
          scmd = scmd\<lparr>steering_wheel_angle_cmd := steer\<rparr>;
          self = self\<lparr>steer_pub := steer_pub self @ [scmd]\<rparr>;
          bcmd = BrakeCmd_new;
          bcmd = bcmd\<lparr>b_enable := True\<rparr>;
          bcmd = bcmd\<lparr>b_pedal_cmd_type := CMD_TORQUE\<rparr>;
          bcmd = bcmd\<lparr>b_pedal_cmd := brake\<rparr>;
          self = self\<lparr>brake_pub := brake_pub self @ [bcmd]\<rparr>
      in self)"

text \<open>
  In \<open>publish\<close> every call of rospy's \<^verbatim>\<open>publish\<close> returns. It can also raise (a closed
  topic, a value that cannot be serialised). In \<open>publish_via\<close> the parameter \<open>send\<close>
  says, for a message, which exception the call raises, if any. The method has no
  \<^verbatim>\<open>try\<close>: an exception leaves it at that call, with what was published before.
\<close>

datatype outbound = Throttle ThrottleCmd | Steering SteeringCmd | Brake BrakeCmd

definition publish_via ::
  "(outbound \<Rightarrow> 'e option) \<Rightarrow> 'c DBWNode \<Rightarrow> real \<Rightarrow> real \<Rightarrow> real
     \<Rightarrow> ('e \<times> 'c DBWNode) + 'c DBWNode" where
  "publish_via send self throttle brake steer =
     (let self = self\<lparr>count := count self + 1\<rparr>;
          tcmd = ThrottleCmd_new;
          tcmd = tcmd\<lparr>t_enable := True\<rparr>;
          tcmd = tcmd\<lparr>t_pedal_cmd_type := CMD_PERCENT\<rparr>;
          tcmd = tcmd\<lparr>t_pedal_cmd := throttle\<rparr>
      in case send (Throttle tcmd) of
           Some e \<Rightarrow> Inl (e, self)
         | None \<Rightarrow>
             (let self = self\<lparr>throttle_pub := throttle_pub self @ [tcmd]\<rparr>;
                  scmd = SteeringCmd_new;
                  scmd = scmd\<lparr>s_enable := True\<rparr>;
                  scmd = scmd\<lparr>steering_wheel_angle_cmd := steer\<rparr>
              in case send (Steering scmd) of
                   Some e \<Rightarrow> Inl (e, self)
                 | None \<Rightarrow>
                     (let self = self\<lparr>steer_pub := steer_pub self @ [scmd]\<rparr>;
                          bcmd = BrakeCmd_new;
                          bcmd = bcmd\<lparr>b_enable := True\<rparr>;
                          bcmd = bcmd\<lparr>b_pedal_cmd_type := CMD_TORQUE\<rparr>;
                          bcmd = bcmd\<lparr>b_pedal_cmd := brake\<rparr>
                      in case send (Brake bcmd) of
                           Some e \<Rightarrow> Inl (e, self)
                         | None \<Rightarrow> Inr (self\<lparr>brake_pub := brake_pub self @ [bcmd]\<rparr>))))"

subsection \<open>The loop (lines 98 to 127)\<close>

text \<open>
  rospy runs the subscriber handlers on threads of their own, so a handler can run
  while the loop is inside an iteration. The loop reads the attributes the handlers
  write at two places: when it builds \<^verbatim>\<open>control_args\<close> (lines 108 to 116) and when it
  tests \<^verbatim>\<open>self.dbw_enabled\<close> (line 125), with the call of the Controller in between.
  The environment of one iteration therefore gives
  \<^item> \<open>arrived\<close>: the messages handled since the test of the previous iteration and
    before this iteration builds \<^verbatim>\<open>control_args\<close>;
  \<^item> \<open>clock\<close>: what \<^verbatim>\<open>rospy.rostime.get_time()\<close> returns at line 103;
  \<^item> \<open>racing\<close>: the messages handled after \<^verbatim>\<open>control_args\<close> was built and before
    line 125 tests the flag, that is, while the Controller runs.
  The seven reads of lines 108 to 116 are taken as one step.
\<close>

record tick_env =
  arrived :: "inbound list"
  clock :: real
  racing :: "inbound list"

text \<open>Line 99: the local variable \<^verbatim>\<open>rate\<close>, assigned once before the loop is entered.\<close>

definition rate :: Rate where
  "rate = Rate 50"

text \<open>Lines 103 to 116: the time stamps and the arguments of the call.\<close>

definition snapshot :: "'c DBWNode \<Rightarrow> real \<Rightarrow> control_args" where
  "snapshot self elapsed =
     \<lparr>arg_target_vel = target_vel self,
      arg_curr_vel = curr_vel self,
      arg_target_ang_vel = target_ang_vel self,
      arg_curr_ang_vel = curr_ang_vel self,
      arg_dbw_enabled = dbw_enabled self,
      arg_curr_angle = curr_angle self,
      arg_cte = cte self,
      arg_elapsed = elapsed\<rparr>"

text \<open>
  One iteration of the loop body. \<open>control\<close> is \<^verbatim>\<open>Controller.control\<close>: it takes the
  state of the Controller object and the arguments, and either raises (\<open>Inl\<close>) or returns
  the triple \<^verbatim>\<open>(throttle, brake, angle)\<close> and the new state of the object. The body has
  no \<^verbatim>\<open>try\<close>: an exception leaves the iteration with the node as it is at that moment.
  An iteration that gets to line 127 ends with \<^verbatim>\<open>rate.sleep()\<close>. In \<open>tick\<close> the calls
  of rospy's \<^verbatim>\<open>publish\<close> and of \<^verbatim>\<open>rate.sleep()\<close> return.
\<close>

definition tick ::
  "('c \<Rightarrow> control_args \<Rightarrow> 'e + (real \<times> real \<times> real) \<times> 'c) \<Rightarrow> 'c DBWNode \<Rightarrow> tick_env
     \<Rightarrow> ('e \<times> 'c DBWNode) + 'c DBWNode" where
  "tick control self env =
     (let now = clock env;
          elapsed = now - last_timestamp self;
          self = self\<lparr>last_timestamp := now\<rparr>;
          control_args = snapshot self elapsed;
          self = self\<lparr>control_calls := control_calls self @ [control_args]\<rparr>
      in case control (controller self) control_args of
           Inl e \<Rightarrow> Inl (e, self)
         | Inr ((throttle, brake, angle), c) \<Rightarrow>
             (let self = self\<lparr>controller := c\<rparr>;
                  self = deliver self (racing env);
                  self = (if dbw_enabled self then publish self throttle brake angle else self)
              in Inr (self\<lparr>sleeps := sleeps self @ [rate]\<rparr>)))"

text \<open>
  The same iteration when the calls into rospy may raise: \<open>send env\<close> is handed to
  \<open>publish_via\<close>, and \<open>sleep env\<close> is the exception \<^verbatim>\<open>rate.sleep()\<close> raises in this
  iteration, if any (rospy raises one when the node is shut down during the sleep).
\<close>

definition tick_via ::
  "(tick_env \<Rightarrow> outbound \<Rightarrow> 'e option) \<Rightarrow> (tick_env \<Rightarrow> 'e option)
     \<Rightarrow> ('c \<Rightarrow> control_args \<Rightarrow> 'e + (real \<times> real \<times> real) \<times> 'c) \<Rightarrow> 'c DBWNode \<Rightarrow> tick_env
     \<Rightarrow> ('e \<times> 'c DBWNode) + 'c DBWNode" where
  "tick_via send sleep control self env =
     (let now = clock env;
          elapsed = now - last_timestamp self;
          self = self\<lparr>last_timestamp := now\<rparr>;
          control_args = snapshot self elapsed;
          self = self\<lparr>control_calls := control_calls self @ [control_args]\<rparr>
      in case control (controller self) control_args of
           Inl e \<Rightarrow> Inl (e, self)
         | Inr ((throttle, brake, angle), c) \<Rightarrow>
             (let self = self\<lparr>controller := c\<rparr>;
                  self = deliver self (racing env)
              in case (if dbw_enabled self then publish_via (send env) self throttle brake angle
                       else Inr self) of
                   Inl x \<Rightarrow> Inl x
                 | Inr self \<Rightarrow>
                     (case sleep env of
                        Some e \<Rightarrow> Inl (e, self)
                      | None \<Rightarrow> Inr (self\<lparr>sleeps := sleeps self @ [rate]\<rparr>))))"

text \<open>
  \<^verbatim>\<open>while not rospy.is_shutdown()\<close>: the schedule lists the iterations for which
  \<^verbatim>\<open>is_shutdown\<close> answered false; at its end the node is shut down and the loop returns.
  An exception raised in an iteration leaves the loop.
\<close>

fun loop ::
  "('c \<Rightarrow> control_args \<Rightarrow> 'e + (real \<times> real \<times> real) \<times> 'c) \<Rightarrow> 'c DBWNode \<Rightarrow> tick_env list
     \<Rightarrow> ('e \<times> 'c DBWNode) + 'c DBWNode" where
  "loop control self [] = Inr self"
| "loop control self (env # envs) =
     (case tick control (deliver self (arrived env)) env of
        Inl x \<Rightarrow> Inl x
      | Inr self' \<Rightarrow> loop control self' envs)"

fun loop_via ::
  "(tick_env \<Rightarrow> outbound \<Rightarrow> 'e option) \<Rightarrow> (tick_env \<Rightarrow> 'e option)
     \<Rightarrow> ('c \<Rightarrow> control_args \<Rightarrow> 'e + (real \<times> real \<times> real) \<times> 'c) \<Rightarrow> 'c DBWNode
     \<Rightarrow> tick_env list \<Rightarrow> ('e \<times> 'c DBWNode) + 'c DBWNode" where
  "loop_via send sleep control self [] = Inr self"
| "loop_via send sleep control self (env # envs) =
     (case tick_via send sleep control (deliver self (arrived env)) env of
        Inl x \<Rightarrow> Inl x
      | Inr self' \<Rightarrow> loop_via send sleep control self' envs)"

text \<open>\<^verbatim>\<open>DBWNode()\<close>: the constructor ends with \<^verbatim>\<open>self.loop()\<close> (line 96).\<close>

definition DBWNode_main ::
  "((string \<times> real) list \<Rightarrow> 'c) \<Rightarrow> ('c \<Rightarrow> control_args \<Rightarrow> 'e + (real \<times> real \<times> real) \<times> 'c)
     \<Rightarrow> (string \<rightharpoonup> real) \<Rightarrow> real \<Rightarrow> tick_env list \<Rightarrow> ('e \<times> 'c DBWNode) + 'c DBWNode" where
  "DBWNode_main mk control server t0 envs = loop control (DBWNode_init mk server t0) envs"

text \<open>The node at the end of a run, whether the loop returned or an exception left it.\<close>

definition final :: "('e \<times> 'c DBWNode) + 'c DBWNode \<Rightarrow> 'c DBWNode" where
  "final r = (case r of Inl (e, self) \<Rightarrow> self | Inr self \<Rightarrow> self)"

subsection \<open>Notions used in the statements\<close>

text \<open>The messages of the \<^verbatim>\<open>/vehicle/dbw_enabled\<close> and \<^verbatim>\<open>current_pose\<close> channels.\<close>

fun is_override :: "inbound \<Rightarrow> bool" where
  "is_override (DbwEnabledMsg d) = True"
| "is_override m = False"

fun is_pose :: "inbound \<Rightarrow> bool" where
  "is_pose (CurrentPoseMsg p) = True"
| "is_pose m = False"

text \<open>The differences between consecutive clock readings, starting from \<open>prev\<close>.\<close>

fun elapsed_of :: "real \<Rightarrow> real list \<Rightarrow> real list" where
  "elapsed_of prev [] = []"
| "elapsed_of prev (t # ts) = (t - prev) # elapsed_of t ts"

text \<open>A schedule with the messages of the pose channel taken out.\<close>

definition without_pose :: "tick_env \<Rightarrow> tick_env" where
  "without_pose env =
     env\<lparr>arrived := filter (\<lambda>m. \<not> is_pose m) (arrived env),
         racing := filter (\<lambda>m. \<not> is_pose m) (racing env)\<rparr>"

text \<open>
  What a run shows to the outside: whether an exception left the loop, the arguments of
  every call of the Controller, and the messages published on the three channels.
\<close>

definition observed ::
  "('e \<times> 'c DBWNode) + 'c DBWNode
     \<Rightarrow> 'e option \<times> control_args list \<times> ThrottleCmd list \<times> SteeringCmd list \<times> BrakeCmd list" where
  "observed r =
     (case r of Inl (e, self) \<Rightarrow> Some e | Inr self \<Rightarrow> None,
      control_calls (final r), throttle_pub (final r), steer_pub (final r),
      brake_pub (final r))"

text \<open>The topic a message arrives on (lines 88 to 94).\<close>

fun channel :: "inbound \<Rightarrow> string" where
  "channel (TwistCmd tw) = ''/twist_cmd''"
| "channel (CurrentVelocity tw) = ''/current_velocity''"
| "channel (DbwEnabledMsg d) = ''/vehicle/dbw_enabled''"
| "channel (FinalWaypointsMsg ws) = ''/final_waypoints''"
| "channel (CurrentPoseMsg p) = ''current_pose''"
| "channel (SteeringReportMsg a) = ''/vehicle/steering_report''"
| "channel (CteMsg d) = ''/vehicle/cte''"

text \<open>
  The arguments of a call of the Controller show the update a message brought. The
  arguments have no entry for the waypoints and for the pose, so there is nothing to
  show for a message of these two channels.
\<close>

fun reflects :: "control_args \<Rightarrow> inbound \<Rightarrow> bool" where
  "reflects a (TwistCmd tw) =
     (arg_target_vel a = linear_x tw \<and> arg_target_ang_vel a = angular_z tw)"
| "reflects a (CurrentVelocity tw) =
     (arg_curr_vel a = linear_x tw \<and> arg_curr_ang_vel a = angular_z tw)"
| "reflects a (DbwEnabledMsg d) = (arg_dbw_enabled a = d)"
| "reflects a (FinalWaypointsMsg ws) = True"
| "reflects a (CurrentPoseMsg p) = True"
| "reflects a (SteeringReportMsg x) = (arg_curr_angle a = x)"
| "reflects a (CteMsg d) = (arg_cte a = d)"

text \<open>
  The states of the node: the one the constructor builds, and every state a handler or
  an iteration of the loop (completed, or left by an exception) makes of one.
\<close>

inductive reachable ::
  "((string \<times> real) list \<Rightarrow> 'c) \<Rightarrow> ('c \<Rightarrow> control_args \<Rightarrow> 'e + (real \<times> real \<times> real) \<times> 'c)
     \<Rightarrow> 'c DBWNode \<Rightarrow> bool"
  for mk control where
    constructed: "reachable mk control (DBWNode_init mk server t0)"
  | handled: "reachable mk control self \<Longrightarrow> reachable mk control (dispatch self m)"
  | iterated: "reachable mk control self \<Longrightarrow> reachable mk control (final (tick control self env))"

subsection \<open>Collaborators for the examples\<close>

text \<open>
  A Controller whose state counts its calls: full throttle, no brake, steering by the
  cross-track error. A second one that divides by the elapsed time, and so raises when
  it is zero. A parameter server with no entry, and one that sets the fuel capacity.
\<close>

definition demo_mk :: "(string \<times> real) list \<Rightarrow> nat" where
  "demo_mk args = 0"

definition demo_control :: "nat \<Rightarrow> control_args \<Rightarrow> string + (real \<times> real \<times> real) \<times> nat" where
  "demo_control n a = Inr ((1, 0, arg_cte a), Suc n)"

definition faulty_control :: "nat \<Rightarrow> control_args \<Rightarrow> string + (real \<times> real \<times> real) \<times> nat" where
  "faulty_control n a =
     (if arg_elapsed a = 0 then Inl ''ZeroDivisionError'' else Inr ((1, 0, 0), Suc n))"

definition no_params :: "string \<rightharpoonup> real" where
  "no_params name = None"

definition fuel_params :: "string \<rightharpoonup> real" where
  "fuel_params name = (if name = ''~fuel_capacity'' then Some 20 else None)"

definition quiet_tick :: "real \<Rightarrow> tick_env" where
  "quiet_tick t = \<lparr>arrived = [], clock = t, racing = []\<rparr>"

text \<open>
  Two iterations: before the first the operator takes over; before the second the
  override flag is set again and a cross-track error arrives. A pose for the examples.
\<close>

definition takeover_tick :: tick_env where
  "takeover_tick = \<lparr>arrived = [DbwEnabledMsg False], clock = 1, racing = []\<rparr>"

definition resume_tick :: tick_env where
  "resume_tick = \<lparr>arrived = [DbwEnabledMsg True, CteMsg 2], clock = 2, racing = []\<rparr>"

definition demo_pose :: Pose where
  "demo_pose = \<lparr>position = (1, 2, 0), orientation = (0, 0, 0, 1)\<rparr>"

text \<open>
  A waypoint. Publishers that accept every message, and publishers of which the one of
  the steering topic is closed. A sleep that returns, and one that is interrupted.
\<close>

definition demo_waypoint :: Waypoint where
  "demo_waypoint =
     \<lparr>wp_pose = demo_pose,
      wp_twist = \<lparr>linear_x = 5, linear_y = 0, linear_z = 0,
                  angular_x = 0, angular_y = 0, angular_z = 0\<rparr>\<rparr>"





section \<open>Basic facts\<close>

lemma deliver_Nil [simp]: "deliver self [] = self"
  by (simp add: deliver_def)

lemma deliver_Cons [simp]: "deliver self (m # ms) = deliver (dispatch self m) ms"
  by (simp add: deliver_def)

lemma deliver_append: "deliver self (ms @ ns) = deliver (deliver self ms) ns"
  by (simp add: deliver_def)

lemmas cb_defs = dbw_enabled_cb_def twist_cmd_cb_def current_velocity_cb_def
  current_pose_cb_def cte_cb_def final_waypoints_cb_def current_angle_cb_def

text \<open>What no handler writes.\<close>

lemma dispatch_frame [simp]:
  "steer_pub (dispatch self m) = steer_pub self"
  "throttle_pub (dispatch self m) = throttle_pub self"
  "brake_pub (dispatch self m) = brake_pub self"
  "controller (dispatch self m) = controller self"
  "last_timestamp (dispatch self m) = last_timestamp self"
  "count (dispatch self m) = count self"
  "final_waypoints (dispatch self m) = final_waypoints self"
  "control_calls (dispatch self m) = control_calls self"
  "sleeps (dispatch self m) = sleeps self"
  by (cases m; simp add: cb_defs)+

lemma deliver_frame [simp]:
  "steer_pub (deliver self ms) = steer_pub self"
  "throttle_pub (deliver self ms) = throttle_pub self"
  "brake_pub (deliver self ms) = brake_pub self"
  "controller (deliver self ms) = controller self"
  "last_timestamp (deliver self ms) = last_timestamp self"
  "count (deliver self ms) = count self"
  "final_waypoints (deliver self ms) = final_waypoints self"
  "control_calls (deliver self ms) = control_calls self"
  "sleeps (deliver self ms) = sleeps self"
  by (induction ms arbitrary: self; simp)+

text \<open>The handlers commute with the writes of the loop.\<close>

lemma dispatch_commute:
  "dispatch (self\<lparr>last_timestamp := t\<rparr>) m = (dispatch self m)\<lparr>last_timestamp := t\<rparr>"
  "dispatch (self\<lparr>control_calls := cs\<rparr>) m = (dispatch self m)\<lparr>control_calls := cs\<rparr>"
  "dispatch (self\<lparr>controller := c\<rparr>) m = (dispatch self m)\<lparr>controller := c\<rparr>"
  by (cases m; simp add: cb_defs)+

lemma deliver_commute:
  "deliver (self\<lparr>last_timestamp := t\<rparr>) ms = (deliver self ms)\<lparr>last_timestamp := t\<rparr>"
  "deliver (self\<lparr>control_calls := cs\<rparr>) ms = (deliver self ms)\<lparr>control_calls := cs\<rparr>"
  "deliver (self\<lparr>controller := c\<rparr>) ms = (deliver self ms)\<lparr>controller := c\<rparr>"
  by (induction ms arbitrary: self; simp add: dispatch_commute)+

lemma snapshot_frame [simp]:
  "snapshot (self\<lparr>last_timestamp := t\<rparr>) e = snapshot self e"
  "snapshot (self\<lparr>control_calls := cs\<rparr>) e = snapshot self e"
  "snapshot (self\<lparr>controller := c\<rparr>) e = snapshot self e"
  by (simp_all add: snapshot_def)

lemma final_simps [simp]: "final (Inl (e, self)) = self" "final (Inr self) = self"
  by (simp_all add: final_def)

text \<open>Messages of other channels leave the flag alone.\<close>

lemma quiet_deliver:
  "\<forall>m\<in>set ms. \<not> is_override m \<Longrightarrow> dbw_enabled (deliver self ms) = dbw_enabled self"
proof (induction ms arbitrary: self)
  case Nil
  then show ?case by simp
next
  case (Cons m ms)
  then have "dbw_enabled (dispatch self m) = dbw_enabled self"
    by (cases m) (simp_all add: cb_defs)
  with Cons show ?case by simp
qed

text \<open>Only a message that clears the flag can clear it.\<close>

lemma no_false_deliver:
  "dbw_enabled self \<Longrightarrow> DbwEnabledMsg False \<notin> set ms \<Longrightarrow> dbw_enabled (deliver self ms)"
proof (induction ms arbitrary: self)
  case Nil
  then show ?case by simp
next
  case (Cons m ms)
  then have "dbw_enabled (dispatch self m)"
    by (cases m) (auto simp: cb_defs)
  with Cons show ?case by simp
qed

lemma publish_fields [simp]:
  "throttle_pub (publish self t b s) = throttle_pub self
      @ [\<lparr>t_enable = True, t_pedal_cmd_type = CMD_PERCENT, t_pedal_cmd = t\<rparr>]"
  "steer_pub (publish self t b s) = steer_pub self
      @ [\<lparr>s_enable = True, steering_wheel_angle_cmd = s\<rparr>]"
  "brake_pub (publish self t b s) = brake_pub self
      @ [\<lparr>b_enable = True, b_pedal_cmd_type = CMD_TORQUE, b_pedal_cmd = b\<rparr>]"
  "count (publish self t b s) = count self + 1"
  "control_calls (publish self t b s) = control_calls self"
  "last_timestamp (publish self t b s) = last_timestamp self"
  "controller (publish self t b s) = controller self"
  "dbw_enabled (publish self t b s) = dbw_enabled self"
  "final_waypoints (publish self t b s) = final_waypoints self"
  "final_waypoints_cb_attr (publish self t b s) = final_waypoints_cb_attr self"
  "sleeps (publish self t b s) = sleeps self"
  by (simp_all add: publish_def Let_def ThrottleCmd_new_def SteeringCmd_new_def BrakeCmd_new_def)

text \<open>The two ways out of an iteration.\<close>

lemma tick_Inl:
  assumes "control (controller self) (snapshot self (clock env - last_timestamp self)) = Inl e"
  shows "tick control self env =
           Inl (e, self\<lparr>last_timestamp := clock env,
                        control_calls := control_calls self
                           @ [snapshot self (clock env - last_timestamp self)]\<rparr>)"
  using assms by (simp add: tick_def Let_def)

lemma tick_Inr:
  assumes "control (controller self) (snapshot self (clock env - last_timestamp self))
             = Inr ((throttle, brake, angle), c)"
  shows "tick control self env =
           Inr ((if dbw_enabled (deliver self (racing env))
                 then publish ((deliver self (racing env))\<lparr>last_timestamp := clock env,
                        control_calls := control_calls self
                           @ [snapshot self (clock env - last_timestamp self)],
                        controller := c\<rparr>) throttle brake angle
                 else (deliver self (racing env))\<lparr>last_timestamp := clock env,
                        control_calls := control_calls self
                           @ [snapshot self (clock env - last_timestamp self)],
                        controller := c\<rparr>)\<lparr>sleeps := sleeps self @ [rate]\<rparr>)"
  using assms by (simp add: tick_def Let_def deliver_commute)

lemma tick_effect:
  "control_calls (final (tick control self env))
     = control_calls self @ [snapshot self (clock env - last_timestamp self)]"
  "last_timestamp (final (tick control self env)) = clock env"
proof -
  let ?r = "control (controller self) (snapshot self (clock env - last_timestamp self))"
  show "control_calls (final (tick control self env))
     = control_calls self @ [snapshot self (clock env - last_timestamp self)]"
  proof (cases ?r)
    case (Inl e)
    then show ?thesis by (simp add: tick_Inl)
  next
    case (Inr p)
    then obtain t b a c where "?r = Inr ((t, b, a), c)" by (cases p) auto
    then show ?thesis by (simp add: tick_Inr)
  qed
  show "last_timestamp (final (tick control self env)) = clock env"
  proof (cases ?r)
    case (Inl e)
    then show ?thesis by (simp add: tick_Inl)
  next
    case (Inr p)
    then obtain t b a c where "?r = Inr ((t, b, a), c)" by (cases p) auto
    then show ?thesis by (simp add: tick_Inr)
  qed
qed

lemmas demo_defs = DBWNode_main_def DBWNode_init_def demo_mk_def demo_control_def
  faulty_control_def no_params_def quiet_tick_def tick_def snapshot_def Let_def cb_defs
  publish_def ThrottleCmd_new_def SteeringCmd_new_def BrakeCmd_new_def

section \<open>The gate on the override flag\<close>

text \<open>
  The loop reads \<^verbatim>\<open>self.dbw_enabled\<close> twice in an iteration: into \<^verbatim>\<open>control_args\<close>
  (line 112) and in the test of line 125. A message on \<^verbatim>\<open>/vehicle/dbw_enabled\<close> handled
  between the two reads makes them differ. Here the flag is false when the arguments
  are built, the Controller is called with \<open>arg_dbw_enabled = False\<close>, the flag is set
  while the Controller runs, and the iteration publishes on all three channels.
\<close>

theorem snapshot_false_yet_published:
  "map arg_dbw_enabled (control_calls (final (DBWNode_main demo_mk demo_control no_params 0
      [\<lparr>arrived = [DbwEnabledMsg False], clock = 1, racing = [DbwEnabledMsg True]\<rparr>]))) = [False]
   \<and> throttle_pub (final (DBWNode_main demo_mk demo_control no_params 0
      [\<lparr>arrived = [DbwEnabledMsg False], clock = 1, racing = [DbwEnabledMsg True]\<rparr>]))
       = [\<lparr>t_enable = True, t_pedal_cmd_type = CMD_PERCENT, t_pedal_cmd = 1\<rparr>]
   \<and> steer_pub (final (DBWNode_main demo_mk demo_control no_params 0
      [\<lparr>arrived = [DbwEnabledMsg False], clock = 1, racing = [DbwEnabledMsg True]\<rparr>]))
       = [\<lparr>s_enable = True, steering_wheel_angle_cmd = 0\<rparr>]
   \<and> brake_pub (final (DBWNode_main demo_mk demo_control no_params 0
      [\<lparr>arrived = [DbwEnabledMsg False], clock = 1, racing = [DbwEnabledMsg True]\<rparr>]))
       = [\<lparr>b_enable = True, b_pedal_cmd_type = CMD_TORQUE, b_pedal_cmd = 0\<rparr>]"
  by (simp add: demo_defs)

text \<open>
  C1, amended. In every iteration in which the flag read into \<^verbatim>\<open>control_args\<close> is false
  and no message of the override channel is handled between that read and the test of
  line 125, nothing is published on the throttle, steering and brake channels, whatever
  the Controller does (return any values, or raise).
\<close>

theorem silent_when_disabled:
  assumes "\<not> arg_dbw_enabled (snapshot self (clock env - last_timestamp self))"
      and "\<forall>m\<in>set (racing env). \<not> is_override m"
  shows "throttle_pub (final (tick control self env)) = throttle_pub self
       \<and> steer_pub (final (tick control self env)) = steer_pub self
       \<and> brake_pub (final (tick control self env)) = brake_pub self"
proof -
  from assms(1) have off: "\<not> dbw_enabled self" by (simp add: snapshot_def)
  with assms(2) have gate: "\<not> dbw_enabled (deliver self (racing env))"
    by (simp add: quiet_deliver)
  show ?thesis
  proof (cases "control (controller self) (snapshot self (clock env - last_timestamp self))")
    case (Inl e)
    then show ?thesis by (simp add: tick_Inl)
  next
    case (Inr p)
    then obtain t b a c where
      "control (controller self) (snapshot self (clock env - last_timestamp self))
         = Inr ((t, b, a), c)"
      by (cases p) auto
    with gate show ?thesis by (simp add: tick_Inr)
  qed
qed

theorem silent_when_disabled_witness:
  "\<not> arg_dbw_enabled (snapshot (dbw_enabled_cb (DBWNode_init demo_mk no_params 0) False)
        (clock \<lparr>arrived = [], clock = 1, racing = [CteMsg 2]\<rparr>
           - last_timestamp (dbw_enabled_cb (DBWNode_init demo_mk no_params 0) False)))
   \<and> filter is_override (racing \<lparr>arrived = [], clock = 1, racing = [CteMsg 2]\<rparr>) = []
   \<and> throttle_pub (final (tick demo_control (dbw_enabled_cb (DBWNode_init demo_mk no_params 0) False)
         \<lparr>arrived = [], clock = 1, racing = [CteMsg 2]\<rparr>)) = []
   \<and> steer_pub (final (tick demo_control (dbw_enabled_cb (DBWNode_init demo_mk no_params 0) False)
         \<lparr>arrived = [], clock = 1, racing = [CteMsg 2]\<rparr>)) = []
   \<and> brake_pub (final (tick demo_control (dbw_enabled_cb (DBWNode_init demo_mk no_params 0) False)
         \<lparr>arrived = [], clock = 1, racing = [CteMsg 2]\<rparr>)) = []"
  using silent_when_disabled [of "dbw_enabled_cb (DBWNode_init demo_mk no_params 0) False"
      "\<lparr>arrived = [], clock = 1, racing = [CteMsg 2]\<rparr>" demo_control]
  by (simp add: snapshot_def dbw_enabled_cb_def DBWNode_init_def)

text \<open>
  C2 as stated has a command on every channel in every iteration in which the flag is
  true. The same two reads decide here: the flag is true when the arguments are built,
  the Controller is called with \<open>arg_dbw_enabled = True\<close> and returns, a message
  clearing the flag is handled while the Controller runs, and the iteration completes
  without publishing anything.
\<close>

theorem snapshot_true_yet_silent:
  "DBWNode_main demo_mk demo_control no_params 0
      [\<lparr>arrived = [], clock = 1, racing = [DbwEnabledMsg False]\<rparr>]
     = Inr (final (DBWNode_main demo_mk demo_control no_params 0
         [\<lparr>arrived = [], clock = 1, racing = [DbwEnabledMsg False]\<rparr>]))
   \<and> map arg_dbw_enabled (control_calls (final (DBWNode_main demo_mk demo_control no_params 0
      [\<lparr>arrived = [], clock = 1, racing = [DbwEnabledMsg False]\<rparr>]))) = [True]
   \<and> throttle_pub (final (DBWNode_main demo_mk demo_control no_params 0
      [\<lparr>arrived = [], clock = 1, racing = [DbwEnabledMsg False]\<rparr>])) = []
   \<and> steer_pub (final (DBWNode_main demo_mk demo_control no_params 0
      [\<lparr>arrived = [], clock = 1, racing = [DbwEnabledMsg False]\<rparr>])) = []
   \<and> brake_pub (final (DBWNode_main demo_mk demo_control no_params 0
      [\<lparr>arrived = [], clock = 1, racing = [DbwEnabledMsg False]\<rparr>])) = []"
  by (simp add: demo_defs)

text \<open>
  C2, amended. In every iteration in which the flag read into \<^verbatim>\<open>control_args\<close> is true,
  no message clearing the flag is handled between that read and the test of line 125,
  and the Controller returns \<open>(throttle, brake, angle)\<close>, exactly one message is appended
  to each of the three channels: the throttle command enabled, of type percent, carrying
  \<open>throttle\<close>; the steering command enabled, carrying \<open>angle\<close>; the brake command
  enabled, of type torque, carrying \<open>brake\<close>.
\<close>

theorem publish_when_enabled:
  assumes "control (controller self) (snapshot self (clock env - last_timestamp self))
             = Inr ((throttle, brake, angle), c)"
      and "arg_dbw_enabled (snapshot self (clock env - last_timestamp self))"
      and "DbwEnabledMsg False \<notin> set (racing env)"
  shows "\<exists>self'. tick control self env = Inr self'
     \<and> throttle_pub self' = throttle_pub self
          @ [\<lparr>t_enable = True, t_pedal_cmd_type = CMD_PERCENT, t_pedal_cmd = throttle\<rparr>]
     \<and> steer_pub self' = steer_pub self
          @ [\<lparr>s_enable = True, steering_wheel_angle_cmd = angle\<rparr>]
     \<and> brake_pub self' = brake_pub self
          @ [\<lparr>b_enable = True, b_pedal_cmd_type = CMD_TORQUE, b_pedal_cmd = brake\<rparr>]"
proof -
  from assms(2) have "dbw_enabled self" by (simp add: snapshot_def)
  with assms(3) have "dbw_enabled (deliver self (racing env))" by (simp add: no_false_deliver)
  with assms(1) show ?thesis by (simp add: tick_Inr)
qed

theorem publish_when_enabled_witness:
  "demo_control (controller (DBWNode_init demo_mk no_params 0))
      (snapshot (DBWNode_init demo_mk no_params 0)
         (clock \<lparr>arrived = [], clock = 1, racing = [DbwEnabledMsg True, CteMsg 2]\<rparr>
            - last_timestamp (DBWNode_init demo_mk no_params 0)))
     = Inr ((1, 0, 0), 1)
   \<and> arg_dbw_enabled (snapshot (DBWNode_init demo_mk no_params 0)
         (clock \<lparr>arrived = [], clock = 1, racing = [DbwEnabledMsg True, CteMsg 2]\<rparr>
            - last_timestamp (DBWNode_init demo_mk no_params 0)))
   \<and> DbwEnabledMsg False \<notin> set (racing \<lparr>arrived = [], clock = 1, racing = [DbwEnabledMsg True, CteMsg 2]\<rparr>)
   \<and> (\<exists>self'. tick demo_control (DBWNode_init demo_mk no_params 0)
          \<lparr>arrived = [], clock = 1, racing = [DbwEnabledMsg True, CteMsg 2]\<rparr> = Inr self'
        \<and> throttle_pub self' = [\<lparr>t_enable = True, t_pedal_cmd_type = CMD_PERCENT, t_pedal_cmd = 1\<rparr>]
        \<and> steer_pub self' = [\<lparr>s_enable = True, steering_wheel_angle_cmd = 0\<rparr>]
        \<and> brake_pub self' = [\<lparr>b_enable = True, b_pedal_cmd_type = CMD_TORQUE, b_pedal_cmd = 0\<rparr>])"
proof -
  let ?env = "\<lparr>arrived = [], clock = 1, racing = [DbwEnabledMsg True, CteMsg 2]\<rparr>"
  let ?init = "DBWNode_init demo_mk no_params 0 :: nat DBWNode"
  have call: "demo_control (controller ?init)
      (snapshot ?init (clock ?env - last_timestamp ?init)) = Inr ((1, 0, 0), 1)"
    by (simp add: demo_control_def snapshot_def DBWNode_init_def demo_mk_def)
  have flag: "arg_dbw_enabled (snapshot ?init (clock ?env - last_timestamp ?init))"
    by (simp add: snapshot_def DBWNode_init_def)
  have quiet: "DbwEnabledMsg False \<notin> set (racing ?env)" by simp
  from publish_when_enabled [where control = demo_control and self = ?init and env = ?env,
      OF call flag quiet] call flag quiet
  show ?thesis
    by (simp add: DBWNode_init_def)
qed


section \<open>Elapsed time\<close>

text \<open>
  Over any run, completed or left by an exception: the calls of the Controller get the
  differences of consecutive clock readings, and the time stamp kept is the reading of
  the last iteration begun.
\<close>

lemma loop_clock:
  "\<exists>new. control_calls (final (loop control self envs)) = control_calls self @ new
     \<and> length new \<le> length envs
     \<and> map arg_elapsed new = take (length new) (elapsed_of (last_timestamp self) (map clock envs))
     \<and> last_timestamp (final (loop control self envs))
         = last (last_timestamp self # take (length new) (map clock envs))
     \<and> (\<forall>self'. loop control self envs = Inr self' \<longrightarrow> length new = length envs)"
proof (induction envs arbitrary: self)
  case Nil
  then show ?case by simp
next
  case (Cons env envs)
  let ?s = "deliver self (arrived env)"
  let ?a = "snapshot ?s (clock env - last_timestamp self)"
  have calls: "control_calls (final (tick control ?s env)) = control_calls self @ [?a]"
    and stamp: "last_timestamp (final (tick control ?s env)) = clock env"
    using tick_effect [of control ?s env] by simp_all
  show ?case
  proof (cases "tick control ?s env")
    case (Inl x)
    then obtain e s' where x: "x = (e, s')" by (cases x)
    with Inl calls stamp have "control_calls s' = control_calls self @ [?a]"
      "last_timestamp s' = clock env" by simp_all
    with Inl x show ?thesis
      by (simp add: snapshot_def)
  next
    case (Inr s')
    with calls stamp have s': "control_calls s' = control_calls self @ [?a]"
      "last_timestamp s' = clock env" by simp_all
    from Cons.IH [of s'] obtain new where new:
      "control_calls (final (loop control s' envs)) = control_calls s' @ new"
      "length new \<le> length envs"
      "map arg_elapsed new = take (length new) (elapsed_of (last_timestamp s') (map clock envs))"
      "last_timestamp (final (loop control s' envs))
         = last (last_timestamp s' # take (length new) (map clock envs))"
      "\<forall>self'. loop control s' envs = Inr self' \<longrightarrow> length new = length envs"
      by blast
    have "control_calls (final (loop control self (env # envs))) = control_calls self @ (?a # new)"
      using Inr new(1) s'(1) by simp
    moreover have "length (?a # new) \<le> length (env # envs)" using new(2) by simp
    moreover have "map arg_elapsed (?a # new)
        = take (length (?a # new)) (elapsed_of (last_timestamp self) (map clock (env # envs)))"
      using new(3) s'(2) by (simp add: snapshot_def)
    moreover have "last_timestamp (final (loop control self (env # envs)))
         = last (last_timestamp self # take (length (?a # new)) (map clock (env # envs)))"
      using Inr new(4) s'(2) by simp
    moreover have "\<forall>self'. loop control self (env # envs) = Inr self'
         \<longrightarrow> length (?a # new) = length (env # envs)"
      using Inr new(5) by simp
    ultimately show ?thesis by blast
  qed
qed

lemma elapsed_of_nonneg:
  "sorted (prev # ts) \<Longrightarrow> \<forall>d\<in>set (elapsed_of prev ts). 0 \<le> d"
  by (induction ts arbitrary: prev) auto

text \<open>
  C3, amended. The elapsed value passed to the Controller in an iteration is the
  difference between the reading of \<^verbatim>\<open>rospy.rostime.get_time()\<close> at the start of this
  iteration and the reading at the start of the previous one (for the first iteration,
  the reading taken in the constructor); after computing it the loop stores the current
  reading as the new \<^verbatim>\<open>last_timestamp\<close>; a loop that runs to shutdown calls the
  Controller once per iteration. The values are \<open>\<ge> 0\<close> when the readings never go
  backwards; the source takes whatever the clock returns.
\<close>

theorem elapsed_is_clock_difference:
  "map arg_elapsed (control_calls (final (DBWNode_main mk control server t0 envs)))
     = take (length (control_calls (final (DBWNode_main mk control server t0 envs))))
         (elapsed_of t0 (map clock envs))
   \<and> last_timestamp (final (DBWNode_main mk control server t0 envs))
     = last (t0 # take (length (control_calls (final (DBWNode_main mk control server t0 envs))))
                   (map clock envs))
   \<and> (\<forall>self'. DBWNode_main mk control server t0 envs = Inr self'
        \<longrightarrow> length (control_calls self') = length envs)
   \<and> (sorted (t0 # map clock envs)
        \<longrightarrow> (\<forall>a\<in>set (control_calls (final (DBWNode_main mk control server t0 envs))).
              0 \<le> arg_elapsed a))"
proof -
  let ?init = "DBWNode_init mk server t0"
  from loop_clock [of control ?init envs] obtain new where new:
    "control_calls (final (loop control ?init envs)) = control_calls ?init @ new"
    "map arg_elapsed new = take (length new) (elapsed_of (last_timestamp ?init) (map clock envs))"
    "last_timestamp (final (loop control ?init envs))
         = last (last_timestamp ?init # take (length new) (map clock envs))"
    "\<forall>self'. loop control ?init envs = Inr self' \<longrightarrow> length new = length envs"
    by blast
  have init: "control_calls ?init = []" "last_timestamp ?init = t0"
    by (simp_all add: DBWNode_init_def)
  have calls: "control_calls (final (DBWNode_main mk control server t0 envs)) = new"
    using new(1) init by (simp add: DBWNode_main_def)
  have 1: "map arg_elapsed new = take (length new) (elapsed_of t0 (map clock envs))"
    using new(2) init by simp
  have 2: "last_timestamp (final (DBWNode_main mk control server t0 envs))
     = last (t0 # take (length new) (map clock envs))"
    using new(3) init by (simp add: DBWNode_main_def)
  have 3: "\<forall>self'. DBWNode_main mk control server t0 envs = Inr self'
        \<longrightarrow> length (control_calls self') = length envs"
  proof (intro allI impI)
    fix self' assume r: "DBWNode_main mk control server t0 envs = Inr self'"
    then have "length new = length envs" using new(4) by (simp add: DBWNode_main_def)
    moreover from r calls have "control_calls self' = new" by simp
    ultimately show "length (control_calls self') = length envs" by simp
  qed
  have 4: "sorted (t0 # map clock envs) \<longrightarrow> (\<forall>a\<in>set new. 0 \<le> arg_elapsed a)"
  proof
    assume "sorted (t0 # map clock envs)"
    then have "\<forall>d\<in>set (elapsed_of t0 (map clock envs)). 0 \<le> d"
      by (rule elapsed_of_nonneg)
    then have "\<forall>d\<in>set (take (length new) (elapsed_of t0 (map clock envs))). 0 \<le> d"
      by (meson in_set_takeD)
    with 1 have "\<forall>d\<in>set (map arg_elapsed new). 0 \<le> d" by simp
    then show "\<forall>a\<in>set new. 0 \<le> arg_elapsed a" by simp
  qed
  from 1 2 3 4 show ?thesis unfolding calls by blast
qed

text \<open>
  C3 as stated asks for an elapsed value that is never negative. The node is built when
  the clock reads 5; at the first iteration the clock reads 3 (the ROS clock is the wall
  clock or a simulated one, and both can be set back); the Controller is called with
  an elapsed time of \<open>- 2\<close>.
\<close>

theorem elapsed_negative_when_clock_steps_back:
  "map arg_elapsed (control_calls (final (DBWNode_main demo_mk demo_control no_params 5
      [quiet_tick 3]))) = [- 2]"
  by (simp add: demo_defs)

theorem elapsed_is_clock_difference_witness:
  "DBWNode_main demo_mk demo_control no_params 5 [quiet_tick 6, quiet_tick 8]
     = Inr (final (DBWNode_main demo_mk demo_control no_params 5 [quiet_tick 6, quiet_tick 8]))
   \<and> sorted (5 # map clock [quiet_tick 6, quiet_tick 8])
   \<and> map arg_elapsed (control_calls (final (DBWNode_main demo_mk demo_control no_params 5
        [quiet_tick 6, quiet_tick 8]))) = [1, 2]
   \<and> last_timestamp (final (DBWNode_main demo_mk demo_control no_params 5
        [quiet_tick 6, quiet_tick 8])) = 8"
  using elapsed_is_clock_difference [of demo_mk demo_control no_params 5
        "[quiet_tick 6, quiet_tick 8]"]
  by (simp add: demo_defs)


section \<open>Exceptions\<close>





lemma publish_via_returns:
  assumes "send (Throttle \<lparr>t_enable = True, t_pedal_cmd_type = CMD_PERCENT, t_pedal_cmd = t\<rparr>) = None"
      and "send (Steering \<lparr>s_enable = True, steering_wheel_angle_cmd = s\<rparr>) = None"
      and "send (Brake \<lparr>b_enable = True, b_pedal_cmd_type = CMD_TORQUE, b_pedal_cmd = b\<rparr>) = None"
  shows "publish_via send self t b s = Inr (publish self t b s)"
  using assms
  by (simp add: publish_via_def publish_def Let_def ThrottleCmd_new_def SteeringCmd_new_def
      BrakeCmd_new_def)

lemma tick_via_Inl:
  assumes "control (controller self) (snapshot self (clock env - last_timestamp self)) = Inl e"
  shows "tick_via send sleep control self env =
           Inl (e, self\<lparr>last_timestamp := clock env,
                        control_calls := control_calls self
                           @ [snapshot self (clock env - last_timestamp self)]\<rparr>)"
  using assms by (simp add: tick_via_def Let_def)

lemma tick_via_Inr:
  assumes "control (controller self) (snapshot self (clock env - last_timestamp self))
             = Inr ((throttle, brake, angle), c)"
  shows "tick_via send sleep control self env =
           (case (if dbw_enabled (deliver self (racing env))
                  then publish_via (send env)
                         ((deliver self (racing env))\<lparr>last_timestamp := clock env,
                            control_calls := control_calls self
                              @ [snapshot self (clock env - last_timestamp self)],
                            controller := c\<rparr>) throttle brake angle
                  else Inr ((deliver self (racing env))\<lparr>last_timestamp := clock env,
                            control_calls := control_calls self
                              @ [snapshot self (clock env - last_timestamp self)],
                            controller := c\<rparr>)) of
              Inl x \<Rightarrow> Inl x
            | Inr self' \<Rightarrow>
                (case sleep env of
                   Some e \<Rightarrow> Inl (e, self')
                 | None \<Rightarrow> Inr (self'\<lparr>sleeps := sleeps self' @ [rate]\<rparr>)))"
  using assms by (simp add: tick_via_def Let_def deliver_commute)

lemma tick_via_returns:
  assumes "\<forall>m. send env m = None" and "sleep env = None"
  shows "tick_via send sleep control self env = tick control self env"
proof (cases "control (controller self) (snapshot self (clock env - last_timestamp self))")
  case (Inl e)
  then show ?thesis by (simp add: tick_via_Inl tick_Inl)
next
  case (Inr p)
  then obtain t b a c where call:
    "control (controller self) (snapshot self (clock env - last_timestamp self))
       = Inr ((t, b, a), c)"
    by (cases p) auto
  from assms(1) have pub: "\<And>s. publish_via (send env) s t b a = Inr (publish s t b a)"
    by (simp add: publish_via_returns)
  from tick_via_Inr [where control = control and self = self and env = env
      and send = send and sleep = sleep, OF call]
    tick_Inr [where control = control and self = self and env = env, OF call]
  show ?thesis
    by (simp add: pub assms(2))
qed

lemma loop_via_returns:
  assumes "\<forall>env\<in>set envs. (\<forall>m. send env m = None) \<and> sleep env = None"
  shows "loop_via send sleep control self envs = loop control self envs"
  using assms
  by (induction envs arbitrary: self) (auto simp: tick_via_returns split: sum.splits)






section \<open>Parameters\<close>

text \<open>
  C5 as stated has all eleven parameters forwarded to the Controller. The fuel capacity
  is read (line 43) and is not among \<^verbatim>\<open>controller_args\<close>: a server that sets it to 20
  gives the Controller the same arguments as a server that sets nothing.
\<close>

theorem fuel_capacity_not_forwarded:
  "fuel_capacity (read_params fuel_params) = 20
   \<and> fuel_capacity (read_params no_params) = 13.5
   \<and> map_of (controller_args (read_params fuel_params)) ''fuel_capacity'' = None
   \<and> controller_args (read_params fuel_params) = controller_args (read_params no_params)"
  by (simp add: controller_args_def read_params_def get_param_def fuel_params_def no_params_def)

text \<open>
  C5, amended. At construction the eleven parameters are read with their defaults. Ten
  of them (wheel base, steering ratio, minimum speed, maximum lateral acceleration,
  maximum steering angle, deceleration limit, acceleration limit, vehicle mass, wheel
  radius, brake deadband) are passed unchanged to the constructor of the Controller, and
  nothing else is passed; the fuel capacity is read and passed nowhere. The parameters
  are not kept on the node: apart from the Controller object, the node the loop starts
  from is the same for every parameter server.
\<close>

theorem controller_args_forwarded:
  "map_of (controller_args (read_params server)) ''wheel_base''
      = Some (get_param server ''~wheel_base'' 2.8498)
   \<and> map_of (controller_args (read_params server)) ''steer_ratio''
      = Some (get_param server ''~steer_ratio'' 14.8)
   \<and> map_of (controller_args (read_params server)) ''min_speed''
      = Some (get_param server ''~min_speed'' 1)
   \<and> map_of (controller_args (read_params server)) ''max_lat_accel''
      = Some (get_param server ''~max_lat_accel'' 3)
   \<and> map_of (controller_args (read_params server)) ''max_steer_angle''
      = Some (get_param server ''~max_steer_angle'' 8)
   \<and> map_of (controller_args (read_params server)) ''decel_limit''
      = Some (get_param server ''~decel_limit'' (- 5))
   \<and> map_of (controller_args (read_params server)) ''accel_limit''
      = Some (get_param server ''~accel_limit'' 1)
   \<and> map_of (controller_args (read_params server)) ''vehicle_mass''
      = Some (get_param server ''~vehicle_mass'' 1736.35)
   \<and> map_of (controller_args (read_params server)) ''wheel_radius''
      = Some (get_param server ''~wheel_radius'' 0.2413)
   \<and> map_of (controller_args (read_params server)) ''brake_deadband''
      = Some (get_param server ''~brake_deadband'' 0.1)
   \<and> map fst (controller_args (read_params server))
      = [''wheel_base'', ''steer_ratio'', ''min_speed'', ''max_lat_accel'', ''max_steer_angle'',
         ''decel_limit'', ''accel_limit'', ''vehicle_mass'', ''wheel_radius'', ''brake_deadband'']
   \<and> fuel_capacity (read_params server) = get_param server ''~fuel_capacity'' 13.5
   \<and> controller (DBWNode_init mk server t0) = mk (controller_args (read_params server))
   \<and> DBWNode_init mk server t0
      = (DBWNode_init mk server' t0)\<lparr>controller := mk (controller_args (read_params server))\<rparr>"
  by (simp add: controller_args_def read_params_def DBWNode_init_def)

section \<open>The rate of the loop\<close>






section \<open>A node that receives nothing\<close>

lemma publish_keeps [simp]:
  "target_vel (publish self t b s) = target_vel self"
  "curr_vel (publish self t b s) = curr_vel self"
  "target_ang_vel (publish self t b s) = target_ang_vel self"
  "curr_ang_vel (publish self t b s) = curr_ang_vel self"
  "curr_angle (publish self t b s) = curr_angle self"
  "cte (publish self t b s) = cte self"
  "current_pose (publish self t b s) = current_pose self"
  by (simp_all add: publish_def Let_def)

text \<open>
  From a state with the values of the constructor, over a schedule without messages and
  with a Controller that always returns: every iteration completes, calls the Controller
  with zeros and the flag set, and publishes once on each channel.
\<close>

lemma loop_idle:
  assumes total: "\<forall>c a. \<exists>r. control c a = Inr r"
      and quiet: "\<forall>env\<in>set envs. arrived env = [] \<and> racing env = []"
      and idle: "target_vel self = 0" "curr_vel self = 0" "target_ang_vel self = 0"
        "curr_ang_vel self = 0" "curr_angle self = 0" "cte self = 0" "dbw_enabled self"
  shows "\<exists>self' new. loop control self envs = Inr self'
      \<and> control_calls self' = control_calls self @ new
      \<and> length new = length envs
      \<and> (\<forall>a\<in>set new. arg_target_vel a = 0 \<and> arg_curr_vel a = 0 \<and> arg_target_ang_vel a = 0
            \<and> arg_curr_ang_vel a = 0 \<and> arg_curr_angle a = 0 \<and> arg_cte a = 0
            \<and> arg_dbw_enabled a)
      \<and> length (throttle_pub self') = length (throttle_pub self) + length envs
      \<and> length (steer_pub self') = length (steer_pub self) + length envs
      \<and> length (brake_pub self') = length (brake_pub self) + length envs"
  using quiet idle
proof (induction envs arbitrary: self)
  case Nil
  then show ?case by simp
next
  case (Cons env envs)
  let ?a = "snapshot self (clock env - last_timestamp self)"
  from Cons.prems(1) have env: "arrived env = []" "racing env = []" by simp_all
  from total obtain r where "control (controller self) ?a = Inr r" by blast
  then obtain t b g c where call: "control (controller self) ?a = Inr ((t, b, g), c)"
    by (cases r) auto
  let ?s = "(publish (self\<lparr>last_timestamp := clock env,
      control_calls := control_calls self @ [?a], controller := c\<rparr>) t b g)
        \<lparr>sleeps := sleeps self @ [rate]\<rparr>"
  have step: "tick control self env = Inr ?s"
    using tick_Inr [where control = control and self = self and env = env, OF call] env Cons.prems
    by simp
  have args: "arg_target_vel ?a = 0 \<and> arg_curr_vel ?a = 0 \<and> arg_target_ang_vel ?a = 0
      \<and> arg_curr_ang_vel ?a = 0 \<and> arg_curr_angle ?a = 0 \<and> arg_cte ?a = 0 \<and> arg_dbw_enabled ?a"
    using Cons.prems by (simp add: snapshot_def)
  have "\<forall>env\<in>set envs. arrived env = [] \<and> racing env = []" using Cons.prems(1) by simp
  from Cons.IH [of ?s, OF this] Cons.prems
  obtain self' new where new: "loop control ?s envs = Inr self'"
      "control_calls self' = control_calls ?s @ new"
      "length new = length envs"
      "\<forall>a\<in>set new. arg_target_vel a = 0 \<and> arg_curr_vel a = 0 \<and> arg_target_ang_vel a = 0
            \<and> arg_curr_ang_vel a = 0 \<and> arg_curr_angle a = 0 \<and> arg_cte a = 0
            \<and> arg_dbw_enabled a"
      "length (throttle_pub self') = length (throttle_pub ?s) + length envs"
      "length (steer_pub self') = length (steer_pub ?s) + length envs"
      "length (brake_pub self') = length (brake_pub ?s) + length envs"
    by auto
  have 1: "loop control self (env # envs) = Inr self'"
    using step new(1) env by simp
  have 2: "control_calls self' = control_calls self @ (?a # new)"
    using new(2) by simp
  have 3: "length (?a # new) = length (env # envs)" using new(3) by simp
  have 4: "\<forall>a\<in>set (?a # new). arg_target_vel a = 0 \<and> arg_curr_vel a = 0 \<and> arg_target_ang_vel a = 0
            \<and> arg_curr_ang_vel a = 0 \<and> arg_curr_angle a = 0 \<and> arg_cte a = 0
            \<and> arg_dbw_enabled a"
    using new(4) args by simp
  have 5: "length (throttle_pub self') = length (throttle_pub self) + length (env # envs)"
      "length (steer_pub self') = length (steer_pub self) + length (env # envs)"
      "length (brake_pub self') = length (brake_pub self) + length (env # envs)"
    using new(5,6,7) by simp_all
  from 1 2 3 4 5 show ?case by blast
qed

text \<open>
  C7. If no inbound message is ever received (and the Controller returns at every call),
  the loop runs to shutdown, and in every iteration the Controller is called with target
  linear velocity, current linear velocity, target angular velocity, current angular
  velocity, current steering angle and cross-track error all 0 and with the enabled flag
  true, and one command is published on each of the three channels.
\<close>

theorem idle_inputs_zero_calls:
  assumes "\<forall>c a. \<exists>r. control c a = Inr r"
      and "\<forall>env\<in>set envs. arrived env = [] \<and> racing env = []"
  shows "\<exists>self'. DBWNode_main mk control server t0 envs = Inr self'
      \<and> length (control_calls self') = length envs
      \<and> (\<forall>a\<in>set (control_calls self'). arg_target_vel a = 0 \<and> arg_curr_vel a = 0
            \<and> arg_target_ang_vel a = 0 \<and> arg_curr_ang_vel a = 0 \<and> arg_curr_angle a = 0
            \<and> arg_cte a = 0 \<and> arg_dbw_enabled a)
      \<and> length (throttle_pub self') = length envs
      \<and> length (steer_pub self') = length envs
      \<and> length (brake_pub self') = length envs"
proof -
  let ?init = "DBWNode_init mk server t0"
  have "target_vel ?init = 0" "curr_vel ?init = 0" "target_ang_vel ?init = 0"
    "curr_ang_vel ?init = 0" "curr_angle ?init = 0" "cte ?init = 0" "dbw_enabled ?init"
    by (simp_all add: DBWNode_init_def)
  from loop_idle [OF assms this]
  obtain self' new where new: "loop control ?init envs = Inr self'"
      "control_calls self' = control_calls ?init @ new"
      "length new = length envs"
      "\<forall>a\<in>set new. arg_target_vel a = 0 \<and> arg_curr_vel a = 0 \<and> arg_target_ang_vel a = 0
            \<and> arg_curr_ang_vel a = 0 \<and> arg_curr_angle a = 0 \<and> arg_cte a = 0
            \<and> arg_dbw_enabled a"
      "length (throttle_pub self') = length (throttle_pub ?init) + length envs"
      "length (steer_pub self') = length (steer_pub ?init) + length envs"
      "length (brake_pub self') = length (brake_pub ?init) + length envs"
    by blast
  have init: "control_calls ?init = []" "throttle_pub ?init = []" "steer_pub ?init = []"
    "brake_pub ?init = []"
    by (simp_all add: DBWNode_init_def)
  from new init have "DBWNode_main mk control server t0 envs = Inr self'"
    "control_calls self' = new"
    "length (throttle_pub self') = length envs"
    "length (steer_pub self') = length envs"
    "length (brake_pub self') = length envs"
    by (simp_all add: DBWNode_main_def)
  with new(3,4) show ?thesis by blast
qed

theorem idle_inputs_zero_calls_witness:
  "(\<forall>c a. \<exists>r. demo_control c a = Inr r)
   \<and> map arrived [quiet_tick 1, quiet_tick 2] = [[], []]
   \<and> map racing [quiet_tick 1, quiet_tick 2] = [[], []]
   \<and> (\<exists>self'. DBWNode_main demo_mk demo_control no_params 0 [quiet_tick 1, quiet_tick 2] = Inr self'
        \<and> map arg_target_vel (control_calls self') = [0, 0]
        \<and> map arg_dbw_enabled (control_calls self') = [True, True]
        \<and> length (throttle_pub self') = 2
        \<and> length (steer_pub self') = 2
        \<and> length (brake_pub self') = 2)"
proof -
  have total: "\<forall>c a. \<exists>r. demo_control c a = Inr r" by (simp add: demo_control_def)
  have quiet: "\<forall>env\<in>set [quiet_tick 1, quiet_tick 2]. arrived env = [] \<and> racing env = []"
    by (simp add: quiet_tick_def)
  from idle_inputs_zero_calls [OF total quiet, of demo_mk no_params 0]
  obtain self' where s: "DBWNode_main demo_mk demo_control no_params 0 [quiet_tick 1, quiet_tick 2]
      = Inr self'"
    "length (throttle_pub self') = 2" "length (steer_pub self') = 2" "length (brake_pub self') = 2"
    by auto
  have run: "DBWNode_main demo_mk demo_control no_params 0 [quiet_tick 1, quiet_tick 2]
      = Inr (final (DBWNode_main demo_mk demo_control no_params 0 [quiet_tick 1, quiet_tick 2]))"
    by (simp add: demo_defs)
  with s(1) have eq: "self' = final (DBWNode_main demo_mk demo_control no_params 0
      [quiet_tick 1, quiet_tick 2])" by simp
  have "map arg_target_vel (control_calls self') = [0, 0]"
    "map arg_dbw_enabled (control_calls self') = [True, True]"
    unfolding eq by (simp_all add: demo_defs)
  with s total show ?thesis
    by (simp add: quiet_tick_def)
qed


section \<open>Updates and the next iteration\<close>

lemma loop_append:
  "loop control self (envs @ envs')
     = (case loop control self envs of Inl x \<Rightarrow> Inl x | Inr s \<Rightarrow> loop control s envs')"
  by (induction envs arbitrary: self) (auto split: sum.splits)

text \<open>
  A handler leaves its update in the attributes the loop reads; handlers of other
  channels do not touch it.
\<close>

lemma dispatch_reflects: "reflects (snapshot (dispatch self m) e) m"
  by (cases m) (simp_all add: snapshot_def cb_defs)

lemma dispatch_other_channel:
  "channel n \<noteq> channel m \<Longrightarrow> reflects (snapshot self e) m
     \<Longrightarrow> reflects (snapshot (dispatch self n) e) m"
  by (cases m; cases n) (simp_all add: snapshot_def cb_defs)

lemma deliver_other_channels:
  "\<forall>n\<in>set ns. channel n \<noteq> channel m \<Longrightarrow> reflects (snapshot self e) m
     \<Longrightarrow> reflects (snapshot (deliver self ns) e) m"
  by (induction ns arbitrary: self) (simp_all add: dispatch_other_channel)

lemma latest_update_reflected:
  assumes "\<forall>n\<in>set ns. channel n \<noteq> channel m"
  shows "reflects (snapshot (deliver self (ms @ m # ns)) e) m"
proof -
  have "reflects (snapshot (dispatch (deliver self ms) m) e) m"
    by (rule dispatch_reflects)
  with assms have "reflects (snapshot (deliver (dispatch (deliver self ms) m) ns) e) m"
    by (rule deliver_other_channels)
  then show ?thesis by (simp add: deliver_append)
qed

text \<open>
  C8 as stated has iteration K publish whenever the flag was set before it began. The
  operator takes over before the first iteration; before the second the flag is set
  again, and while the Controller runs in the second a message clears it: the
  Controller was called with the flag set, and the second iteration publishes nothing.
\<close>

theorem resumed_yet_silent:
  "map arg_dbw_enabled (control_calls (final (DBWNode_main demo_mk demo_control no_params 0
      [takeover_tick, \<lparr>arrived = [DbwEnabledMsg True], clock = 2, racing = [DbwEnabledMsg False]\<rparr>])))
     = [False, True]
   \<and> throttle_pub (final (DBWNode_main demo_mk demo_control no_params 0
      [takeover_tick, \<lparr>arrived = [DbwEnabledMsg True], clock = 2, racing = [DbwEnabledMsg False]\<rparr>]))
     = []
   \<and> steer_pub (final (DBWNode_main demo_mk demo_control no_params 0
      [takeover_tick, \<lparr>arrived = [DbwEnabledMsg True], clock = 2, racing = [DbwEnabledMsg False]\<rparr>]))
     = []
   \<and> brake_pub (final (DBWNode_main demo_mk demo_control no_params 0
      [takeover_tick, \<lparr>arrived = [DbwEnabledMsg True], clock = 2, racing = [DbwEnabledMsg False]\<rparr>]))
     = []"
  by (simp add: demo_defs takeover_tick_def)

text \<open>
  C8, amended. Let the iterations before iteration K have completed and left the node
  in state \<open>s\<close>, and let the messages \<open>arrived env\<close> be handled before iteration K builds
  its arguments. Then the calls of the earlier iterations are what they were, and the
  call of iteration K gets the attributes as the handlers left them: for each message
  that is the latest of its channel, the arguments carry its values. In particular,
  when the flag has been set before iteration K begins and no message clearing it is
  handled after that, before or during the call of the Controller in iteration K,
  iteration K itself publishes the three values the Controller returns.
\<close>

theorem update_visible_next_tick:
  assumes "loop control self envs = Inr s"
  shows "control_calls (final (loop control self (envs @ [env])))
           = control_calls s @ [snapshot (deliver s (arrived env)) (clock env - last_timestamp s)]
     \<and> (\<forall>ms m ns. arrived env = ms @ m # ns \<and> (\<forall>n\<in>set ns. channel n \<noteq> channel m)
          \<longrightarrow> reflects (snapshot (deliver s (arrived env)) (clock env - last_timestamp s)) m)
     \<and> (\<forall>ms ns throttle brake angle c.
          arrived env = ms @ DbwEnabledMsg True # ns \<and> DbwEnabledMsg False \<notin> set ns
          \<and> DbwEnabledMsg False \<notin> set (racing env)
          \<and> control (controller s)
               (snapshot (deliver s (arrived env)) (clock env - last_timestamp s))
               = Inr ((throttle, brake, angle), c)
          \<longrightarrow> (\<exists>s'. loop control self (envs @ [env]) = Inr s'
                \<and> throttle_pub s' = throttle_pub s
                     @ [\<lparr>t_enable = True, t_pedal_cmd_type = CMD_PERCENT, t_pedal_cmd = throttle\<rparr>]
                \<and> steer_pub s' = steer_pub s
                     @ [\<lparr>s_enable = True, steering_wheel_angle_cmd = angle\<rparr>]
                \<and> brake_pub s' = brake_pub s
                     @ [\<lparr>b_enable = True, b_pedal_cmd_type = CMD_TORQUE, b_pedal_cmd = brake\<rparr>]))"
proof (intro conjI allI impI)
  let ?s1 = "deliver s (arrived env)"
  let ?a = "snapshot ?s1 (clock env - last_timestamp s)"
  have next_tick: "loop control self (envs @ [env]) = loop control s [env]"
    using assms by (simp add: loop_append)
  have one: "final (loop control s [env]) = final (tick control ?s1 env)"
    by (cases "tick control ?s1 env") simp_all
  show "control_calls (final (loop control self (envs @ [env]))) = control_calls s @ [?a]"
    using tick_effect(1) [of control ?s1 env] next_tick one by simp
  {
    fix ms m ns
    assume "arrived env = ms @ m # ns \<and> (\<forall>n\<in>set ns. channel n \<noteq> channel m)"
    then show "reflects ?a m"
      using latest_update_reflected [of ns m s ms] by simp
  }
  {
    fix ms ns throttle brake angle c
    assume h: "arrived env = ms @ DbwEnabledMsg True # ns \<and> DbwEnabledMsg False \<notin> set ns
          \<and> DbwEnabledMsg False \<notin> set (racing env)
          \<and> control (controller s) ?a = Inr ((throttle, brake, angle), c)"
    then have "?s1 = deliver (dispatch (deliver s ms) (DbwEnabledMsg True)) ns"
      by (simp add: deliver_append)
    with h have "dbw_enabled ?s1" by (simp add: no_false_deliver dbw_enabled_cb_def)
    with h have gate: "dbw_enabled (deliver ?s1 (racing env))" by (simp add: no_false_deliver)
    from h have "control (controller s) ?a = Inr ((throttle, brake, angle), c)" by blast
    then have call: "control (controller ?s1) (snapshot ?s1 (clock env - last_timestamp ?s1))
        = Inr ((throttle, brake, angle), c)" by simp
    from tick_Inr [where control = control and self = ?s1 and env = env, OF call] gate
    show "\<exists>s'. loop control self (envs @ [env]) = Inr s'
                \<and> throttle_pub s' = throttle_pub s
                     @ [\<lparr>t_enable = True, t_pedal_cmd_type = CMD_PERCENT, t_pedal_cmd = throttle\<rparr>]
                \<and> steer_pub s' = steer_pub s
                     @ [\<lparr>s_enable = True, steering_wheel_angle_cmd = angle\<rparr>]
                \<and> brake_pub s' = brake_pub s
                     @ [\<lparr>b_enable = True, b_pedal_cmd_type = CMD_TORQUE, b_pedal_cmd = brake\<rparr>]"
      using next_tick by simp
  }
qed

theorem update_visible_next_tick_witness:
  "loop demo_control (DBWNode_init demo_mk no_params 0) [takeover_tick]
     = Inr (final (loop demo_control (DBWNode_init demo_mk no_params 0) [takeover_tick]))
   \<and> arrived resume_tick = [] @ DbwEnabledMsg True # [CteMsg 2]
   \<and> DbwEnabledMsg False \<notin> set [CteMsg 2]
   \<and> DbwEnabledMsg False \<notin> set (racing resume_tick)
   \<and> map arg_dbw_enabled (control_calls (final
        (loop demo_control (DBWNode_init demo_mk no_params 0) ([takeover_tick] @ [resume_tick]))))
      = [False, True]
   \<and> map arg_cte (control_calls (final
        (loop demo_control (DBWNode_init demo_mk no_params 0) ([takeover_tick] @ [resume_tick]))))
      = [0, 2]
   \<and> throttle_pub (final
        (loop demo_control (DBWNode_init demo_mk no_params 0) ([takeover_tick] @ [resume_tick])))
      = [\<lparr>t_enable = True, t_pedal_cmd_type = CMD_PERCENT, t_pedal_cmd = 1\<rparr>]
   \<and> steer_pub (final
        (loop demo_control (DBWNode_init demo_mk no_params 0) ([takeover_tick] @ [resume_tick])))
      = [\<lparr>s_enable = True, steering_wheel_angle_cmd = 2\<rparr>]
   \<and> brake_pub (final
        (loop demo_control (DBWNode_init demo_mk no_params 0) ([takeover_tick] @ [resume_tick])))
      = [\<lparr>b_enable = True, b_pedal_cmd_type = CMD_TORQUE, b_pedal_cmd = 0\<rparr>]"
  using update_visible_next_tick [of demo_control "DBWNode_init demo_mk no_params 0"
      "[takeover_tick]"
      "final (loop demo_control (DBWNode_init demo_mk no_params 0) [takeover_tick])" resume_tick]
  by (simp add: demo_defs takeover_tick_def resume_tick_def)

section \<open>The waypoints handler\<close>

lemma tick_keeps_waypoints:
  "final_waypoints (final (tick control self env)) = final_waypoints self"
proof (cases "control (controller self) (snapshot self (clock env - last_timestamp self))")
  case (Inl e)
  then show ?thesis by (simp add: tick_Inl)
next
  case (Inr p)
  then obtain t b a c where
    "control (controller self) (snapshot self (clock env - last_timestamp self))
       = Inr ((t, b, a), c)"
    by (cases p) auto
  then show ?thesis by (simp add: tick_Inr)
qed

lemma reachable_waypoints: "reachable mk control self \<Longrightarrow> final_waypoints self = None"
proof (induction rule: reachable.induct)
  case (constructed server t0)
  show ?case by (simp add: DBWNode_init_def)
next
  case (handled self m)
  then show ?case by simp
next
  case (iterated self env)
  then show ?case by (simp add: tick_keeps_waypoints)
qed

lemma dispatch_shadowed:
  "final_waypoints_cb_attr self \<noteq> Method \<Longrightarrow> final_waypoints_cb_attr (dispatch self m) \<noteq> Method"
  by (cases m) (simp_all add: cb_defs)

lemma deliver_shadowed:
  "final_waypoints_cb_attr self \<noteq> Method \<Longrightarrow> final_waypoints_cb_attr (deliver self ms) \<noteq> Method"
  by (induction ms arbitrary: self) (simp_all add: dispatch_shadowed)

lemma tick_shadowed:
  assumes "final_waypoints_cb_attr self \<noteq> Method"
  shows "final_waypoints_cb_attr (final (tick control self env)) \<noteq> Method"
proof (cases "control (controller self) (snapshot self (clock env - last_timestamp self))")
  case (Inl e)
  with assms show ?thesis by (simp add: tick_Inl)
next
  case (Inr p)
  then obtain t b a c where
    "control (controller self) (snapshot self (clock env - last_timestamp self))
       = Inr ((t, b, a), c)"
    by (cases p) auto
  with deliver_shadowed [OF assms, of "racing env"] show ?thesis by (simp add: tick_Inr)
qed

lemma loop_shadowed:
  "final_waypoints_cb_attr self \<noteq> Method
     \<Longrightarrow> final_waypoints_cb_attr (final (loop control self envs)) \<noteq> Method"
proof (induction envs arbitrary: self)
  case Nil
  then show ?case by simp
next
  case (Cons env envs)
  let ?s = "deliver self (arrived env)"
  from Cons.prems have "final_waypoints_cb_attr ?s \<noteq> Method" by (rule deliver_shadowed)
  then have after: "final_waypoints_cb_attr (final (tick control ?s env)) \<noteq> Method"
    by (rule tick_shadowed)
  show ?case
  proof (cases "tick control ?s env")
    case (Inl x)
    with after show ?thesis by (cases x) simp
  next
    case (Inr s')
    with after Cons.IH [of s'] show ?thesis by simp
  qed
qed

text \<open>
  C9 as stated has the waypoints channel broken from the first message on. The
  subscriber keeps the bound method it was given at line 91, so the assignment of line
  169 does not take the handler away from it: a second message is handled as the first
  was, and leaves its waypoints in the attribute.
\<close>

theorem later_waypoints_still_handled:
  "final_waypoints_cb_attr (deliver (DBWNode_init demo_mk no_params 0) [FinalWaypointsMsg []])
     = Shadowed []
   \<and> final_waypoints_cb_attr (deliver (DBWNode_init demo_mk no_params 0)
        [FinalWaypointsMsg [], FinalWaypointsMsg [demo_waypoint]])
     = Shadowed [demo_waypoint]
   \<and> dispatch (dispatch (DBWNode_init demo_mk no_params 0) (FinalWaypointsMsg []))
        (FinalWaypointsMsg [demo_waypoint])
     = dispatch (DBWNode_init demo_mk no_params 0) (FinalWaypointsMsg [demo_waypoint])"
  by (simp add: final_waypoints_cb_def DBWNode_init_def)

text \<open>
  C9, amended. The handler of the waypoints channel assigns the received waypoints to
  the attribute \<^verbatim>\<open>final_waypoints_cb\<close> of the instance and changes nothing else, so
  \<^verbatim>\<open>final_waypoints\<close> is \<^verbatim>\<open>None\<close> in every reachable state. The channel goes on as
  it began: every later message runs the same handler, with the same effect as if it
  were the first, and the attribute holds the waypoints of the latest message. What is
  lost with the first message is the name: on the instance \<^verbatim>\<open>final_waypoints_cb\<close> is
  from then on a list of waypoints and never the handler again.
\<close>

theorem waypoints_never_stored:
  "dispatch self (FinalWaypointsMsg ws) = self\<lparr>final_waypoints_cb_attr := Shadowed ws\<rparr>
   \<and> (reachable mk control self \<longrightarrow> final_waypoints self = None)
   \<and> dispatch (dispatch self (FinalWaypointsMsg ws)) (FinalWaypointsMsg ws')
        = dispatch self (FinalWaypointsMsg ws')
   \<and> final_waypoints_cb_attr (deliver self (ms @ [FinalWaypointsMsg ws])) = Shadowed ws
   \<and> (final_waypoints_cb_attr self \<noteq> Method
        \<longrightarrow> final_waypoints_cb_attr (deliver self ms) \<noteq> Method
          \<and> final_waypoints_cb_attr (final (loop control self envs)) \<noteq> Method)"
  by (simp add: final_waypoints_cb_def reachable_waypoints deliver_shadowed loop_shadowed
      deliver_append)

theorem waypoints_never_stored_witness:
  "reachable demo_mk demo_control
      (final (tick demo_control (dispatch (DBWNode_init demo_mk no_params 0) (FinalWaypointsMsg []))
         (quiet_tick 1)))
   \<and> final_waypoints
      (final (tick demo_control (dispatch (DBWNode_init demo_mk no_params 0) (FinalWaypointsMsg []))
         (quiet_tick 1))) = None
   \<and> final_waypoints_cb_attr
      (final (tick demo_control (dispatch (DBWNode_init demo_mk no_params 0) (FinalWaypointsMsg []))
         (quiet_tick 1))) = Shadowed []
   \<and> final_waypoints_cb_attr
      (final (loop demo_control
         (final (tick demo_control (dispatch (DBWNode_init demo_mk no_params 0) (FinalWaypointsMsg []))
            (quiet_tick 1)))
         [resume_tick])) = Shadowed []"
proof -
  let ?s = "final (tick demo_control
      (dispatch (DBWNode_init demo_mk no_params 0) (FinalWaypointsMsg [])) (quiet_tick 1))"
  have r: "reachable demo_mk demo_control ?s"
    by (intro reachable.intros)
  have a: "final_waypoints_cb_attr ?s = Shadowed []"
    by (simp add: demo_defs)
  have b: "final_waypoints_cb_attr (final (loop demo_control ?s [resume_tick])) = Shadowed []"
    by (simp add: demo_defs resume_tick_def)
  from waypoints_never_stored [where self = ?s and mk = demo_mk and control = demo_control
      and ms = "[]" and envs = "[resume_tick]" and ws = "[]" and ws' = "[]"] r a b
  show ?thesis by simp
qed


section \<open>The pose channel\<close>

text \<open>
  The handler of the pose channel writes \<^verbatim>\<open>current_pose\<close> and nothing else; every other
  operation gives the same result, up to that attribute, whatever the attribute holds.
\<close>

lemma dispatch_pose:
  "is_pose m \<Longrightarrow> (dispatch self m)\<lparr>current_pose := q\<rparr> = self\<lparr>current_pose := q\<rparr>"
  by (cases m) (simp_all add: cb_defs)

lemma dispatch_ignores_pose:
  "\<not> is_pose m \<Longrightarrow> dispatch (self\<lparr>current_pose := q\<rparr>) m = (dispatch self m)\<lparr>current_pose := q\<rparr>"
  by (cases m) (simp_all add: cb_defs)

lemma deliver_ignores_pose:
  "(deliver self ms)\<lparr>current_pose := q\<rparr>
     = deliver (self\<lparr>current_pose := q\<rparr>) (filter (\<lambda>m. \<not> is_pose m) ms)"
proof (induction ms arbitrary: self)
  case Nil
  show ?case by simp
next
  case (Cons m ms)
  show ?case
  proof (cases "is_pose m")
    case True
    with Cons [of "dispatch self m"] show ?thesis by (simp add: dispatch_pose)
  next
    case False
    with Cons [of "dispatch self m"] show ?thesis by (simp add: dispatch_ignores_pose)
  qed
qed

lemma snapshot_ignores_pose [simp]: "snapshot (self\<lparr>current_pose := q\<rparr>) e = snapshot self e"
  by (simp add: snapshot_def)

lemma publish_ignores_pose:
  "publish (self\<lparr>current_pose := q\<rparr>) t b a = (publish self t b a)\<lparr>current_pose := q\<rparr>"
  by (simp add: publish_def Let_def)

lemma tick_ignores_pose:
  "tick control (self\<lparr>current_pose := q\<rparr>) (without_pose env)
     = map_sum (map_prod id (\<lambda>s. s\<lparr>current_pose := q\<rparr>)) (\<lambda>s. s\<lparr>current_pose := q\<rparr>)
         (tick control self env)"
proof (cases "control (controller self) (snapshot self (clock env - last_timestamp self))")
  case (Inl e)
  then have "control (controller (self\<lparr>current_pose := q\<rparr>))
      (snapshot (self\<lparr>current_pose := q\<rparr>)
         (clock (without_pose env) - last_timestamp (self\<lparr>current_pose := q\<rparr>))) = Inl e"
    by (simp add: without_pose_def)
  from tick_Inl [where control = control and self = "self\<lparr>current_pose := q\<rparr>"
      and env = "without_pose env", OF this]
    tick_Inl [where control = control and self = self and env = env, OF Inl]
  show ?thesis
    by (simp add: without_pose_def)
next
  case (Inr p)
  then obtain t b a c where call:
    "control (controller self) (snapshot self (clock env - last_timestamp self))
       = Inr ((t, b, a), c)"
    by (cases p) auto
  then have call': "control (controller (self\<lparr>current_pose := q\<rparr>))
      (snapshot (self\<lparr>current_pose := q\<rparr>)
         (clock (without_pose env) - last_timestamp (self\<lparr>current_pose := q\<rparr>)))
       = Inr ((t, b, a), c)"
    by (simp add: without_pose_def)
  have racing: "deliver (self\<lparr>current_pose := q\<rparr>) (racing (without_pose env))
      = (deliver self (racing env))\<lparr>current_pose := q\<rparr>"
    by (simp add: without_pose_def deliver_ignores_pose)
  from tick_Inr [where control = control and self = "self\<lparr>current_pose := q\<rparr>"
      and env = "without_pose env", OF call']
    tick_Inr [where control = control and self = self and env = env, OF call]
  show ?thesis
    by (simp add: racing publish_ignores_pose) (simp add: without_pose_def)
qed

lemma loop_ignores_pose:
  "loop control (self\<lparr>current_pose := q\<rparr>) (map without_pose envs)
     = map_sum (map_prod id (\<lambda>s. s\<lparr>current_pose := q\<rparr>)) (\<lambda>s. s\<lparr>current_pose := q\<rparr>)
         (loop control self envs)"
proof (induction envs arbitrary: self)
  case Nil
  show ?case by simp
next
  case (Cons env envs)
  let ?s = "deliver self (arrived env)"
  have arrived: "deliver (self\<lparr>current_pose := q\<rparr>) (arrived (without_pose env))
      = ?s\<lparr>current_pose := q\<rparr>"
    by (simp add: without_pose_def deliver_ignores_pose)
  show ?case
  proof (cases "tick control ?s env")
    case (Inl x)
    then show ?thesis
      by (cases x) (simp add: arrived tick_ignores_pose)
  next
    case (Inr s')
    with Cons [of s'] show ?thesis
      by (simp add: arrived tick_ignores_pose)
  qed
qed

lemma observed_ignores_pose:
  "observed (map_sum (map_prod id (\<lambda>s. s\<lparr>current_pose := q\<rparr>)) (\<lambda>s. s\<lparr>current_pose := q\<rparr>) r)
     = observed r"
  by (cases r) (auto simp: observed_def)

lemma observed_without_pose:
  "observed (loop control self envs)
     = observed (loop control (self\<lparr>current_pose := None\<rparr>) (map without_pose envs))"
  by (simp add: loop_ignores_pose observed_ignores_pose)

text \<open>
  C10. Two runs of the node whose schedules differ only in the messages of the pose
  channel (which ones arrive, how many, and when) end in the same way, call the
  Controller with the same sequence of arguments, and publish the same sequences of
  commands on the three channels. The same holds for two runs that start from nodes
  differing in \<^verbatim>\<open>current_pose\<close> only: nothing reads the attribute. The pose handler
  writes that attribute only.
\<close>

theorem pose_does_not_interfere:
  assumes "map without_pose envs = map without_pose envs'"
  shows "observed (DBWNode_main mk control server t0 envs)
           = observed (DBWNode_main mk control server t0 envs')
       \<and> observed (loop control (self\<lparr>current_pose := q\<rparr>) envs) = observed (loop control self envs')
       \<and> (current_pose_cb self p)\<lparr>current_pose := current_pose self\<rparr> = self"
proof (intro conjI)
  show "observed (DBWNode_main mk control server t0 envs)
           = observed (DBWNode_main mk control server t0 envs')"
    unfolding DBWNode_main_def
    using assms observed_without_pose [of control "DBWNode_init mk server t0" envs]
      observed_without_pose [of control "DBWNode_init mk server t0" envs']
    by simp
  show "observed (loop control (self\<lparr>current_pose := q\<rparr>) envs) = observed (loop control self envs')"
    using assms observed_without_pose [of control "self\<lparr>current_pose := q\<rparr>" envs]
      observed_without_pose [of control self envs']
    by simp
  show "(current_pose_cb self p)\<lparr>current_pose := current_pose self\<rparr> = self"
    by (simp add: current_pose_cb_def)
qed

theorem pose_does_not_interfere_witness:
  "map without_pose [\<lparr>arrived = [CurrentPoseMsg demo_pose, CteMsg 2], clock = 1, racing = []\<rparr>]
     = map without_pose [\<lparr>arrived = [CteMsg 2], clock = 1, racing = [CurrentPoseMsg demo_pose]\<rparr>]
   \<and> observed (DBWNode_main demo_mk demo_control no_params 0
        [\<lparr>arrived = [CurrentPoseMsg demo_pose, CteMsg 2], clock = 1, racing = []\<rparr>])
     = observed (DBWNode_main demo_mk demo_control no_params 0
        [\<lparr>arrived = [CteMsg 2], clock = 1, racing = [CurrentPoseMsg demo_pose]\<rparr>])
   \<and> steer_pub (final (DBWNode_main demo_mk demo_control no_params 0
        [\<lparr>arrived = [CurrentPoseMsg demo_pose, CteMsg 2], clock = 1, racing = []\<rparr>]))
     = [\<lparr>s_enable = True, steering_wheel_angle_cmd = 2\<rparr>]"
proof -
  have same: "map without_pose
      [\<lparr>arrived = [CurrentPoseMsg demo_pose, CteMsg 2], clock = 1, racing = []\<rparr>]
     = map without_pose [\<lparr>arrived = [CteMsg 2], clock = 1, racing = [CurrentPoseMsg demo_pose]\<rparr>]"
    by (simp add: without_pose_def)
  have out: "steer_pub (final (DBWNode_main demo_mk demo_control no_params 0
        [\<lparr>arrived = [CurrentPoseMsg demo_pose, CteMsg 2], clock = 1, racing = []\<rparr>]))
     = [\<lparr>s_enable = True, steering_wheel_angle_cmd = 2\<rparr>]"
    by (simp add: demo_defs)
  from pose_does_not_interfere [OF same, of demo_mk demo_control no_params 0] same out
  show ?thesis by blast
qed


end
